theory Spec2Isabelle
  imports Main "HOL-Library.Sublist" "HOL-Library.Multiset"
begin

text \<open>
  A model of \<open>app.py\<close>, the weather brief script: it validates an ICAO code, fetches the
  METAR and the TAF of the airport over HTTP, decodes the METAR with a library, prints
  the three texts and posts them to a Slack webhook. The functions of the script are
  translated one by one; the network, the XML parser, the METAR library and the
  configuration are parameters, and logging, requests and printing are recorded in a
  trace of events.
\<close>

section \<open>Strings\<close>

text \<open>
  A Python \<open>str\<close> is a sequence of Unicode code points, so it is modelled as a list of
  natural numbers. Literals of the source are all ASCII and are written with \<open>ascii\<close>.
\<close>

type_synonym pystr = "nat list"

definition ascii :: "string \<Rightarrow> pystr" where
  "ascii s = map of_char s"

text \<open>
  \<open>str.strip()\<close> with no argument removes leading and trailing characters for which
  \<open>str.isspace\<close> holds: the ASCII controls 9-13 and 28-31, the space, and the Unicode
  white space U+0085, U+00A0, U+1680, U+2000-U+200A, U+2028, U+2029, U+202F, U+205F, U+3000.
\<close>

definition isspace :: "nat \<Rightarrow> bool" where
  "isspace c =
     ((9 \<le> c \<and> c \<le> 13) \<or> (28 \<le> c \<and> c \<le> 32) \<or> c = 133 \<or> c = 160 \<or> c = 5760 \<or>
      (8192 \<le> c \<and> c \<le> 8202) \<or> c = 8232 \<or> c = 8233 \<or> c = 8239 \<or> c = 8287 \<or> c = 12288)"

definition strip :: "pystr \<Rightarrow> pystr" where
  "strip s = rev (dropWhile isspace (rev (dropWhile isspace s)))"

text \<open>\<open>needle in hay\<close>: the needle occurs as a contiguous run somewhere in the hay.\<close>

fun startswith :: "pystr \<Rightarrow> pystr \<Rightarrow> bool" where
  "startswith s [] = True"
| "startswith [] (p # ps) = False"
| "startswith (c # cs) (p # ps) = (c = p \<and> startswith cs ps)"

fun contains :: "pystr \<Rightarrow> pystr \<Rightarrow> bool" where
  "contains [] needle = (needle = [])"
| "contains (c # cs) needle = (startswith (c # cs) needle \<or> contains cs needle)"

section \<open>Input validator\<close>

text \<open>
  \<open>re.match(r"^[A-Z]{4}$", icao)\<close>. The pattern is a sequence of three items: the
  anchor \<open>^\<close>, the class \<open>[A-Z]\<close> repeated exactly four times, and the anchor \<open>$\<close>.
  Without \<open>re.MULTILINE\<close>, \<open>^\<close> matches only at the start of the string and \<open>$\<close>
  matches at the end of the string and also just before a newline that is the last
  character. \<open>re.match\<close> asks for a match of a prefix, starting at position 0.
\<close>

datatype re_item = Caret | Dollar | Range nat nat nat

fun re_match_at :: "re_item list \<Rightarrow> bool \<Rightarrow> pystr \<Rightarrow> bool" where
  "re_match_at [] at_start s = True"
| "re_match_at (Caret # r) at_start s = (at_start \<and> re_match_at r at_start s)"
| "re_match_at (Dollar # r) at_start s = ((s = [] \<or> s = [10]) \<and> re_match_at r at_start s)"
| "re_match_at (Range lo hi 0 # r) at_start s = re_match_at r at_start s"
| "re_match_at (Range lo hi (Suc n) # r) at_start s =
     (case s of
        [] \<Rightarrow> False
      | c # cs \<Rightarrow> lo \<le> c \<and> c \<le> hi \<and> re_match_at (Range lo hi n # r) False cs)"

definition re_match :: "re_item list \<Rightarrow> pystr \<Rightarrow> bool" where
  "re_match pat s = re_match_at pat True s"

text \<open>The pattern \<open>^[A-Z]{4}$\<close>: \<open>A\<close> is code point 65 and \<open>Z\<close> is 90.\<close>

definition icao_pattern :: "re_item list" where
  "icao_pattern = [Caret, Range 65 90 4, Dollar]"

definition is_valid_icao :: "pystr \<Rightarrow> bool" where
  "is_valid_icao icao = re_match icao_pattern icao"

section \<open>The outside world\<close>

text \<open>
  Exceptions of the program. \<open>RequestException\<close> stands for the exceptions of the
  classes below \<open>requests.exceptions.RequestException\<close> that \<open>requests.get\<close> and
  \<open>requests.post\<close> raise (timeouts, DNS and connection errors, malformed URLs), with the
  message. \<open>HTTPError\<close>, raised by \<open>raise_for_status\<close>, is a subclass of
  \<open>RequestException\<close> too and carries the status. \<open>OSError\<close> and \<open>UnicodeError\<close> are not
  below \<open>RequestException\<close>: the first leaves \<open>requests.get\<close> when the certificate
  bundle is missing, the second leaves \<open>response.text\<close> when the body cannot be decoded
  with the declared character set. \<open>MetarException\<close> is any \<open>Exception\<close> raised inside
  the METAR library.
\<close>

datatype exn =
    RequestException pystr
  | HTTPError nat
  | ParseError pystr
  | TypeError
  | KeyError pystr
  | MetarException pystr
  | OSError pystr
  | UnicodeError pystr

fun is_RequestException :: "exn \<Rightarrow> bool" where
  "is_RequestException (RequestException m) = True"
| "is_RequestException (HTTPError st) = True"
| "is_RequestException e = False"

fun is_ParseError :: "exn \<Rightarrow> bool" where
  "is_ParseError (ParseError m) = True"
| "is_ParseError e = False"

record response =
  status_code :: nat
  resp_text :: pystr

text \<open>
  \<open>response.raise_for_status()\<close> raises \<open>HTTPError\<close> for the statuses 400 to 599,
  "bad responses (4xx or 5xx)" in the words of the source, and returns otherwise.
\<close>

definition raise_for_status :: "response \<Rightarrow> exn option" where
  "raise_for_status r =
     (if 400 \<le> status_code r \<and> status_code r < 600 then Some (HTTPError (status_code r))
      else None)"

text \<open>
  What a GET gives when it does not give a response whose text can be read: the call
  raises an exception (\<open>Raises\<close>), or it returns a response with the given status whose
  \<open>text\<close> raises the given exception every time it is read (\<open>Unreadable\<close>).
\<close>

datatype get_failure = Raises exn | Unreadable nat exn

text \<open>
  An XML element as \<open>xml.etree.ElementTree\<close> gives it: its tag, its text (\<open>None\<close> for
  an element without character data before its first child, as for \<open><text/>\<close>), and its
  children in document order.
\<close>

datatype element = Element (tag: pystr) (elem_text: "pystr option") (children: "element list")

text \<open>The JSON body of the webhook request.\<close>

datatype json = JStr pystr | JBool bool | JList "json list" | JDict "(pystr \<times> json) list"

text \<open>
  What the program does not compute itself is a parameter: the answers of the network
  to a GET of a URL (\<open>Inr r\<close>: a response with status and readable text; \<open>Inl f\<close>: one
  of the failures above) and to a POST of a JSON body to a URL (\<open>Inl e\<close>: the call
  raises \<open>e\<close>, of whatever class), the XML parser (\<open>Inl m\<close>: \<open>ET.ParseError\<close>),
  the METAR library (the constructor \<open>Metar(code)\<close> and the method \<open>string()\<close> of the
  object of type \<open>'m\<close> it builds, each of which may raise), Unicode's upper-case mapping
  \<open>str.upper\<close>, and the value \<open>os.getenv("SLACK_WEBHOOK_URL")\<close> read at start-up.
\<close>

record 'm env =
  requests_get :: "pystr \<Rightarrow> get_failure + response"
  requests_post :: "pystr \<Rightarrow> json \<Rightarrow> exn + response"
  ET_fromstring :: "pystr \<Rightarrow> pystr + element"
  Metar :: "pystr \<Rightarrow> exn + 'm"
  Metar_string :: "'m \<Rightarrow> exn + pystr"
  str_upper :: "pystr \<Rightarrow> pystr"
  SLACK_WEBHOOK_URL :: "pystr option"

text \<open>
  What the program does to the world is a trace of events, in the order they happen:
  a log record (level, message, and the exception formatted into the message, if any),
  an HTTP request, a line printed. Every function takes the trace so far and returns
  the trace extended, next to its result or the exception it raises.
\<close>

datatype level = INFO | ERROR

datatype event =
    Log level pystr "exn option"
  | HttpGet pystr
  | HttpPost pystr json
  | Print pystr

type_synonym world = "event list"

section \<open>METAR fetcher\<close>

definition metar_url :: "pystr \<Rightarrow> pystr" where
  "metar_url icao =
     ascii ''https://aviationweather.gov/api/data/metar?ids='' @ icao @ ascii ''&format=raw''"

text \<open>
  The body of the \<open>try\<close> block of \<open>get_metar\<close>. On a response whose text cannot be read,
  \<open>raise_for_status\<close> still comes first (it looks at the status only); the exception
  of \<open>text\<close> is raised where the text is first read, in the test of the \<open>if\<close>.
\<close>

definition get_metar_try :: "'m env \<Rightarrow> pystr \<Rightarrow> world \<Rightarrow> (exn + pystr) \<times> world" where
  "get_metar_try E url w =
     (case requests_get E url of
        Inl (Raises e) \<Rightarrow> (Inl e, w @ [HttpGet url])
      | Inl (Unreadable st e) \<Rightarrow>
          (case raise_for_status \<lparr>status_code = st, resp_text = []\<rparr> of
             Some h \<Rightarrow> (Inl h, w @ [HttpGet url])
           | None \<Rightarrow> (Inl e, w @ [HttpGet url]))
      | Inr response \<Rightarrow>
          (case raise_for_status response of
             Some e \<Rightarrow> (Inl e, w @ [HttpGet url])
           | None \<Rightarrow>
               if strip (resp_text response) \<noteq> []
               then (Inr (strip (resp_text response)), w @ [HttpGet url])
               else (Inr (ascii ''METAR data not available (empty response).''),
                     w @ [HttpGet url])))"

definition get_metar :: "'m env \<Rightarrow> pystr \<Rightarrow> world \<Rightarrow> (exn + pystr) \<times> world" where
  "get_metar E icao w =
     (if \<not> is_valid_icao icao then (Inr (ascii ''Invalid ICAO code.''), w)
      else
        (case get_metar_try E (metar_url icao) w of
           (Inr r, w1) \<Rightarrow> (Inr r, w1)
         | (Inl e, w1) \<Rightarrow>
             if is_RequestException e
             then (Inr (ascii ''METAR data not available (network error).''),
                   w1 @ [Log ERROR (ascii ''Error fetching METAR: '') (Some e)])
             else (Inl e, w1)))"

section \<open>Decoder\<close>

text \<open>The body of the \<open>try\<close> block of \<open>decode_metar\<close>.\<close>

definition decode_metar_try :: "'m env \<Rightarrow> pystr \<Rightarrow> exn + pystr" where
  "decode_metar_try E metar =
     (case Metar E metar of
        Inl e \<Rightarrow> Inl e
      | Inr parsed_metar \<Rightarrow> Metar_string E parsed_metar)"

text \<open>\<open>except Exception\<close> catches every exception of the model.\<close>

definition decode_metar :: "'m env \<Rightarrow> pystr \<Rightarrow> world \<Rightarrow> (exn + pystr) \<times> world" where
  "decode_metar E metar w =
     (if contains metar (ascii ''METAR data not available.'') \<or>
         contains metar (ascii ''Invalid ICAO code.'')
      then (Inr metar, w)
      else
        (case decode_metar_try E metar of
           Inr d \<Rightarrow> (Inr d, w)
         | Inl e \<Rightarrow>
             (Inr (ascii ''Error decoding METAR.''),
              w @ [Log ERROR (ascii ''Error decoding METAR: '') (Some e)])))"

section \<open>TAF fetcher\<close>

definition taf_url :: "pystr \<Rightarrow> pystr" where
  "taf_url icao =
     ascii ''https://aviationweather.gov/cgi-bin/data/dataserver.php?requestType=retrieve&dataSource=tafs&format=xml&stationString=''
     @ icao @ ascii ''&hours=24''"

text \<open>
  \<open>elem.iter(t)\<close>: the element itself if its tag is \<open>t\<close>, then the same for each child
  in turn (a pre-order walk).
\<close>

fun iter :: "pystr \<Rightarrow> element \<Rightarrow> element list" where
  "iter t (Element g x cs) =
     (if g = t then [Element g x cs] else []) @ concat (map (iter t) cs)"

text \<open>
  \<open>root.findall(".//TAF/text")\<close>. The path has three steps. \<open>.\<close> selects the root.
  \<open>//TAF\<close> selects, for the root, every element of \<open>root.iter("TAF")\<close> that is not the
  root itself; in a tree only the first element of the walk can be the root, so these
  are the elements the walks of the children give. \<open>/text\<close> selects, for each element
  found so far and in that order, its children with tag \<open>text\<close>.
\<close>

definition descendants_TAF :: "element \<Rightarrow> element list" where
  "descendants_TAF root = concat (map (iter (ascii ''TAF'')) (children root))"

definition children_text :: "element \<Rightarrow> element list" where
  "children_text e = filter (\<lambda>c. tag c = ascii ''text'') (children e)"

definition findall_TAF_text :: "element \<Rightarrow> element list" where
  "findall_TAF_text root = concat (map children_text (descendants_TAF root))"

text \<open>
  \<open>sep.join(items)\<close> where an item may be \<open>None\<close>: \<open>str.join\<close> raises \<open>TypeError\<close> when an
  item is not a string.
\<close>

fun join_strs :: "pystr \<Rightarrow> pystr list \<Rightarrow> pystr" where
  "join_strs sep [] = []"
| "join_strs sep [x] = x"
| "join_strs sep (x # y # ys) = x @ sep @ join_strs sep (y # ys)"

fun strs_of :: "pystr option list \<Rightarrow> pystr list option" where
  "strs_of [] = Some []"
| "strs_of (None # items) = None"
| "strs_of (Some s # items) =
     (case strs_of items of None \<Rightarrow> None | Some ss \<Rightarrow> Some (s # ss))"

definition str_join :: "pystr \<Rightarrow> pystr option list \<Rightarrow> exn + pystr" where
  "str_join sep items =
     (case strs_of items of
        None \<Rightarrow> Inl TypeError
      | Some ss \<Rightarrow> Inr (join_strs sep ss))"

text \<open>
  The body of the \<open>try\<close> block of \<open>get_taf\<close>, with the same order on a response whose
  text cannot be read: first the status, then the exception of \<open>text\<close>.
\<close>

definition get_taf_try :: "'m env \<Rightarrow> pystr \<Rightarrow> world \<Rightarrow> (exn + pystr) \<times> world" where
  "get_taf_try E url w =
     (case requests_get E url of
        Inl (Raises e) \<Rightarrow> (Inl e, w @ [HttpGet url])
      | Inl (Unreadable st e) \<Rightarrow>
          (case raise_for_status \<lparr>status_code = st, resp_text = []\<rparr> of
             Some h \<Rightarrow> (Inl h, w @ [HttpGet url])
           | None \<Rightarrow> (Inl e, w @ [HttpGet url]))
      | Inr response \<Rightarrow>
          (case raise_for_status response of
             Some e \<Rightarrow> (Inl e, w @ [HttpGet url])
           | None \<Rightarrow>
               if strip (resp_text response) = []
               then (Inr (ascii ''TAF data not available (empty response).''),
                     w @ [HttpGet url])
               else
                 (case ET_fromstring E (resp_text response) of
                    Inl m \<Rightarrow> (Inl (ParseError m), w @ [HttpGet url])
                  | Inr root \<Rightarrow>
                      (let taf_texts = map elem_text (findall_TAF_text root) in
                       if taf_texts \<noteq> []
                       then (str_join [10] taf_texts, w @ [HttpGet url])
                       else (Inr (ascii ''TAF data not available.''), w @ [HttpGet url])))))"

definition get_taf :: "'m env \<Rightarrow> pystr \<Rightarrow> world \<Rightarrow> (exn + pystr) \<times> world" where
  "get_taf E icao w =
     (if \<not> is_valid_icao icao then (Inr (ascii ''Invalid ICAO code.''), w)
      else
        (case get_taf_try E (taf_url icao) w of
           (Inr r, w1) \<Rightarrow> (Inr r, w1)
         | (Inl e, w1) \<Rightarrow>
             if is_RequestException e \<or> is_ParseError e
             then (Inr (ascii ''TAF data not available.''),
                   w1 @ [Log ERROR (ascii ''Error fetching/parsing TAF: '') (Some e)])
             else (Inl e, w1)))"

section \<open>Notifier\<close>

text \<open>
  The weather brief is a dictionary from field names to strings; \<open>message[k]\<close> raises
  \<open>KeyError\<close> when the key is missing.
\<close>

definition getitem :: "(pystr \<rightharpoonup> pystr) \<Rightarrow> pystr \<Rightarrow> exn + pystr" where
  "getitem message k = (case message k of None \<Rightarrow> Inl (KeyError k) | Some v \<Rightarrow> Inr v)"

definition payload_of :: "pystr \<Rightarrow> pystr \<Rightarrow> pystr \<Rightarrow> pystr \<Rightarrow> json" where
  "payload_of ICAO metar taf decoded_metar =
     JDict
      [(ascii ''text'',
        JStr (ascii ''*Weather Brief for '' @ ICAO @ ascii ''* :airplane: '' @ [10, 10] @
              ascii ''*METAR* :bar_chart: '' @ [10] @ metar @ [10, 10] @
              ascii ''*TAF* :cloud_with_rain: '' @ [10] @ taf @ [10, 10] @
              ascii ''*Decoded METAR* :book: '' @ [10] @ decoded_metar)),
       (ascii ''attachments'',
        JList
         [JDict
           [(ascii ''color'', JStr (ascii ''#36a64f'')),
            (ascii ''title'', JStr (ascii ''Weather Information'')),
            (ascii ''pretext'', JStr (ascii ''Weather Brief for *'' @ ICAO @ ascii ''*'')),
            (ascii ''fields'',
             JList
              [JDict [(ascii ''title'', JStr (ascii ''METAR'')),
                      (ascii ''value'', JStr metar),
                      (ascii ''short'', JBool False)],
               JDict [(ascii ''title'', JStr (ascii ''TAF'')),
                      (ascii ''value'', JStr taf),
                      (ascii ''short'', JBool False)],
               JDict [(ascii ''title'', JStr (ascii ''Decoded METAR'')),
                      (ascii ''value'', JStr decoded_metar),
                      (ascii ''short'', JBool False)]]),
            (ascii ''footer'', JStr (ascii ''Weather data provided by AviationWeather.gov'')),
            (ascii ''footer_icon'',
             JStr (ascii ''https://www.aviationweather.gov/sites/default/files/favicon.ico'')),
            (ascii ''thumb_url'',
             JStr (ascii ''https://upload.wikimedia.org/wikipedia/commons/thumb/6/67/Weather_icon_001.svg/120px-Weather_icon_001.svg.png''))]])]"

text \<open>Building the payload reads the three fields in the order of the source.\<close>

definition build_payload :: "'m env \<Rightarrow> (pystr \<rightharpoonup> pystr) \<Rightarrow> pystr \<Rightarrow> exn + json" where
  "build_payload E message icao =
     (case getitem message (ascii ''metar'') of
        Inl e \<Rightarrow> Inl e
      | Inr metar \<Rightarrow>
          (case getitem message (ascii ''taf'') of
             Inl e \<Rightarrow> Inl e
           | Inr taf \<Rightarrow>
               (case getitem message (ascii ''decoded_metar'') of
                  Inl e \<Rightarrow> Inl e
                | Inr decoded_metar \<Rightarrow>
                    Inr (payload_of (str_upper E icao) metar taf decoded_metar))))"

text \<open>
  The \<open>try\<close> statement of \<open>send_to_slack\<close>, with its handler: an exception of
  \<open>requests.post\<close> that is no \<open>RequestException\<close> is not caught.
\<close>

definition slack_post :: "'m env \<Rightarrow> pystr \<Rightarrow> json \<Rightarrow> world \<Rightarrow> (exn + unit) \<times> world" where
  "slack_post E url payload w =
     (case requests_post E url payload of
        Inl e \<Rightarrow>
          if is_RequestException e
          then (Inr (),
                w @ [HttpPost url payload,
                     Log ERROR (ascii ''Error sending data to Slack: '') (Some e)])
          else (Inl e, w @ [HttpPost url payload])
      | Inr response \<Rightarrow>
          (case raise_for_status response of
             Some e \<Rightarrow>
               (Inr (),
                w @ [HttpPost url payload,
                     Log ERROR (ascii ''Error sending data to Slack: '') (Some e)])
           | None \<Rightarrow>
               (Inr (),
                w @ [HttpPost url payload,
                     Log INFO (ascii ''Data sent to Slack successfully.'') None])))"

text \<open>The \<open>else\<close> branch of \<open>send_to_slack\<close>.\<close>

definition slack_not_configured :: "world \<Rightarrow> (exn + unit) \<times> world" where
  "slack_not_configured w =
     (Inr (),
      w @ [Log ERROR (ascii ''Slack Webhook URL not found in environment variables.'') None])"

text \<open>\<open>if SLACK_WEBHOOK_URL:\<close> is false for \<open>None\<close> and for the empty string.\<close>

definition send_to_slack ::
  "'m env \<Rightarrow> (pystr \<rightharpoonup> pystr) \<Rightarrow> pystr \<Rightarrow> world \<Rightarrow> (exn + unit) \<times> world" where
  "send_to_slack E message icao w =
     (case SLACK_WEBHOOK_URL E of
        None \<Rightarrow> slack_not_configured w
      | Some url \<Rightarrow>
          if url = [] then slack_not_configured w
          else
            (case build_payload E message icao of
               Inl e \<Rightarrow> (Inl e, w)
             | Inr payload \<Rightarrow> slack_post E url payload w))"

section \<open>The weather brief\<close>

definition brief_message :: "pystr \<Rightarrow> pystr \<Rightarrow> pystr \<Rightarrow> (pystr \<rightharpoonup> pystr)" where
  "brief_message metar taf decoded_metar =
     [ascii ''metar'' \<mapsto> metar, ascii ''taf'' \<mapsto> taf, ascii ''decoded_metar'' \<mapsto> decoded_metar]"

definition brief_prints :: "pystr \<Rightarrow> pystr \<Rightarrow> pystr \<Rightarrow> pystr \<Rightarrow> event list" where
  "brief_prints ICAO metar taf decoded_metar =
     [Print ([10] @ ascii ''*Weather Brief for '' @ ICAO @ ascii ''*'' @ [10]),
      Print (ascii ''*METAR:*'' @ [10] @ metar),
      Print ([10] @ ascii ''*TAF:*'' @ [10] @ taf),
      Print ([10] @ ascii ''*Decoded METAR:*'' @ [10] @ decoded_metar)]"

definition get_weather_brief :: "'m env \<Rightarrow> pystr \<Rightarrow> world \<Rightarrow> (exn + unit) \<times> world" where
  "get_weather_brief E icao w =
     (case get_metar E icao
             (w @ [Log INFO (ascii ''Fetching weather briefing for '' @ str_upper E icao @
                             ascii ''...'') None]) of
        (Inl e, w1) \<Rightarrow> (Inl e, w1)
      | (Inr metar, w1) \<Rightarrow>
          (case get_taf E icao w1 of
             (Inl e, w2) \<Rightarrow> (Inl e, w2)
           | (Inr taf, w2) \<Rightarrow>
               (case decode_metar E metar w2 of
                  (Inl e, w3) \<Rightarrow> (Inl e, w3)
                | (Inr decoded_metar, w3) \<Rightarrow>
                    send_to_slack E (brief_message metar taf decoded_metar) icao
                      (w3 @ brief_prints (str_upper E icao) metar taf decoded_metar))))"

text \<open>
  The script calls \<open>get_weather_brief\<close> on its argument: the process exits with status 0
  when the call returns and with status 1 when an exception leaves it.
\<close>

definition exit_status :: "'m env \<Rightarrow> pystr \<Rightarrow> nat" where
  "exit_status E icao =
     (case fst (get_weather_brief E icao []) of Inr u \<Rightarrow> 0 | Inl e \<Rightarrow> 1)"

section \<open>Notions of the specification\<close>

text \<open>
  The matching nodes of a TAF response in document order: a walk of the tree below the
  root that lists every element with tag \<open>text\<close> whose parent is a \<open>TAF\<close> element (a
  \<open>TAF\<close> element below the root: the path \<open>.//TAF/text\<close> never selects the root), each
  element before its children and the children from first to last.
\<close>

fun walk :: "bool \<Rightarrow> element \<Rightarrow> element list" where
  "walk under_taf (Element g x cs) =
     (if under_taf \<and> g = ascii ''text'' then [Element g x cs] else []) @
     concat (map (walk (g = ascii ''TAF'')) cs)"

definition text_nodes_in_document_order :: "element \<Rightarrow> element list" where
  "text_nodes_in_document_order root = concat (map (walk False) (children root))"

text \<open>No \<open>TAF\<close> element of the tree has a \<open>TAF\<close> element below it.\<close>

fun no_nested_TAF :: "element \<Rightarrow> bool" where
  "no_nested_TAF (Element g x cs) =
     ((if g = ascii ''TAF'' then list_all (\<lambda>c. iter (ascii ''TAF'') c = []) cs else True) \<and>
      list_all no_nested_TAF cs)"

section \<open>Example worlds\<close>

text \<open>
  Concrete environments on which the theorems below are instantiated. In all of them
  the METAR library is one whose object is the text it was built from, and
  \<open>str.upper\<close> is its restriction to ASCII.
\<close>

definition upper_ascii :: "pystr \<Rightarrow> pystr" where
  "upper_ascii s = map (\<lambda>c. if 97 \<le> c \<and> c \<le> 122 then c - 32 else c) s"

text \<open>No network, no webhook, and a METAR library that rejects every text.\<close>

definition offline_env :: "pystr env" where
  "offline_env =
     \<lparr>requests_get = (\<lambda>url. Inl (Raises (RequestException (ascii ''timed out'')))),
      requests_post = (\<lambda>url payload. Inl (RequestException (ascii ''timed out''))),
      ET_fromstring = (\<lambda>s. Inl (ascii ''syntax error'')),
      Metar = (\<lambda>s. Inl (MetarException (ascii ''Unparsed groups''))),
      Metar_string = (\<lambda>m. Inr m),
      str_upper = upper_ascii,
      SLACK_WEBHOOK_URL = None\<rparr>"

definition KJFK :: pystr where
  "KJFK = ascii ''KJFK''"

text \<open>
  A network that answers the METAR request for KJFK with \<open>m\<close> and every other GET with
  \<open>t\<close> (each an answer with status and body, or a failure), and an XML parser that
  reads the body it is given as \<open>x\<close>.
\<close>

definition weather_env ::
  "get_failure + response \<Rightarrow> get_failure + response \<Rightarrow> pystr + element \<Rightarrow> pystr env" where
  "weather_env m t x =
     offline_env
      \<lparr>requests_get := (\<lambda>url. if url = metar_url KJFK then m else t),
       ET_fromstring := (\<lambda>s. x)\<rparr>"

definition ok_response :: "pystr \<Rightarrow> get_failure + response" where
  "ok_response body = Inr \<lparr>status_code = 200, resp_text = body\<rparr>"

text \<open>The METAR endpoint answers with a report, white space around it.\<close>

definition metar_body :: pystr where
  "metar_body = ascii '' KJFK 211951Z 28012KT 10SM FEW250 24/12 A3001'' @ [10]"

text \<open>A request that fails in time, and one that fails for a missing certificate bundle.\<close>

definition timed_out :: "get_failure + response" where
  "timed_out = Inl (Raises (RequestException (ascii ''timed out'')))"

definition no_ca_bundle :: "get_failure + response" where
  "no_ca_bundle = Inl (Raises (OSError (ascii ''Could not find a suitable TLS CA certificate bundle'')))"

definition metar_ok :: "get_failure + response" where

  "metar_ok = ok_response metar_body"

text \<open>\<open><response><data><TAF><text/></TAF></data></response>\<close>\<close>

definition empty_text_xml :: element where
  "empty_text_xml =
     Element (ascii ''response'') None
      [Element (ascii ''data'') None
        [Element (ascii ''TAF'') None [Element (ascii ''text'') None []]]]"

text \<open>\<open><response><TAF><TAF><text>a</text></TAF><text>b</text></TAF></response>\<close>\<close>

definition nested_xml :: element where
  "nested_xml =
     Element (ascii ''response'') None
      [Element (ascii ''TAF'') None
        [Element (ascii ''TAF'') None [Element (ascii ''text'') (Some (ascii ''a'')) []],
         Element (ascii ''text'') (Some (ascii ''b'')) []]]"

text \<open>
  \<open><response><data><TAF><text>TAF KJFK</text></TAF><TAF><text>TAF AMD KJFK</text></TAF></data></response>\<close>
\<close>

definition two_tafs_xml :: element where
  "two_tafs_xml =
     Element (ascii ''response'') None
      [Element (ascii ''data'') None
        [Element (ascii ''TAF'') None [Element (ascii ''text'') (Some (ascii ''TAF KJFK'')) []],
         Element (ascii ''TAF'') None
          [Element (ascii ''text'') (Some (ascii ''TAF AMD KJFK'')) []]]]"

text \<open>\<open><response><data/></response>\<close>\<close>

definition no_taf_xml :: element where
  "no_taf_xml = Element (ascii ''response'') None [Element (ascii ''data'') None []]"

section \<open>Facts about strings and the validator\<close>

lemma startswith_prefix: "startswith s p = prefix p s"
  by (induction s p rule: startswith.induct) auto

lemma contains_sublist: "contains hay needle = sublist needle hay"
  by (induction hay) (auto simp: startswith_prefix sublist_Cons_right)

text \<open>
  What the validator accepts: four code points between \<open>A\<close> and \<open>Z\<close>, and the same
  followed by one newline.
\<close>

lemma is_valid_icao_iff:
  "is_valid_icao s \<longleftrightarrow>
     (\<exists>a b c d. (s = [a, b, c, d] \<or> s = [a, b, c, d, 10]) \<and>
        65 \<le> a \<and> a \<le> 90 \<and> 65 \<le> b \<and> b \<le> 90 \<and> 65 \<le> c \<and> c \<le> 90 \<and> 65 \<le> d \<and> d \<le> 90)"
  by (auto simp: is_valid_icao_def re_match_def icao_pattern_def numeral_eq_Suc
      split: list.splits)

lemma KJFK_valid: "is_valid_icao KJFK"
  by code_simp

lemma kjfk_invalid: "\<not> is_valid_icao (ascii ''kjfk'')"
  by code_simp

text \<open>
  \<open>strip\<close> gives the empty string exactly on strings of white space; otherwise it cuts
  a run of white space from each end and leaves a string that neither starts nor ends
  with white space.
\<close>

lemma dropWhile_all_iff: "(\<forall>x \<in> set (dropWhile P s). P x) \<longleftrightarrow> (\<forall>x \<in> set s. P x)"
proof
  assume a: "\<forall>x \<in> set (dropWhile P s). P x"
  have "dropWhile P s = []"
  proof (rule ccontr)
    assume n: "dropWhile P s \<noteq> []"
    then have "\<not> P (hd (dropWhile P s))" by (rule hd_dropWhile)
    moreover from n have "hd (dropWhile P s) \<in> set (dropWhile P s)" by (rule hd_in_set)
    ultimately show False using a by blast
  qed
  then show "\<forall>x \<in> set s. P x" by simp
next
  assume "\<forall>x \<in> set s. P x"
  then show "\<forall>x \<in> set (dropWhile P s). P x" by (blast dest: set_dropWhileD)
qed

lemma strip_empty_iff: "strip s = [] \<longleftrightarrow> list_all isspace s"
  by (simp add: strip_def dropWhile_all_iff list_all_iff)

lemma strip_decomp:
  "s = takeWhile isspace s @ strip s @ rev (takeWhile isspace (rev (dropWhile isspace s)))"
proof -
  let ?t = "dropWhile isspace s"
  have "rev (takeWhile isspace (rev ?t) @ dropWhile isspace (rev ?t)) = rev (rev ?t)"
    by (simp only: takeWhile_dropWhile_id)
  then have "strip s @ rev (takeWhile isspace (rev ?t)) = ?t"
    by (simp only: rev_append rev_rev_ident strip_def)
  then show ?thesis by (simp only: takeWhile_dropWhile_id)
qed

lemma strip_last: "strip s \<noteq> [] \<Longrightarrow> \<not> isspace (last (strip s))"
  unfolding strip_def by (simp only: last_rev rev_is_Nil_conv) (rule hd_dropWhile)

lemma strip_hd:
  assumes "strip s \<noteq> []"
  shows "\<not> isspace (hd (strip s))"
proof -
  let ?t = "dropWhile isspace s"
  have "takeWhile isspace s @ ?t =
        takeWhile isspace s @ strip s @ rev (takeWhile isspace (rev ?t))"
    using strip_decomp [of s] by (simp only: takeWhile_dropWhile_id)
  then have t: "?t = strip s @ rev (takeWhile isspace (rev ?t))"
    by (simp only: same_append_eq)
  from t assms have ne: "?t \<noteq> []" by (metis append_is_Nil_conv)
  from t assms have "hd ?t = hd (strip s)" by (metis hd_append2)
  with hd_dropWhile [OF ne] show ?thesis by simp
qed

lemma strip_trimmed:
  "\<exists>p q. s = p @ strip s @ q \<and> list_all isspace p \<and> list_all isspace q \<and>
      (strip s = [] \<or> (\<not> isspace (hd (strip s)) \<and> \<not> isspace (last (strip s))))"
proof -
  have "list_all isspace (takeWhile isspace s)"
    by (auto simp: list_all_iff dest: set_takeWhileD)
  moreover have "list_all isspace (rev (takeWhile isspace (rev (dropWhile isspace s))))"
    by (auto simp: list_all_iff dest: set_takeWhileD)
  ultimately show ?thesis
    using strip_decomp [of s] strip_hd [of s] strip_last [of s] by blast
qed


section \<open>Facts about the fetchers\<close>

text \<open>
  The two fetchers on a valid code, one case per outcome of the request; the test
  \<open>strip(body) = ""\<close> is stated as: the body is white space only.
\<close>

lemma metar_url_neq_taf_url: "metar_url a \<noteq> taf_url b"
  by (simp add: metar_url_def taf_url_def ascii_def)

lemma weather_env_get_metar [simp]: "requests_get (weather_env m t x) (metar_url KJFK) = m"
  by (simp add: weather_env_def)

lemma weather_env_get_taf [simp]: "requests_get (weather_env m t x) (taf_url icao) = t"
  using metar_url_neq_taf_url [of KJFK icao] by (auto simp: weather_env_def)

lemma weather_env_fromstring [simp]: "ET_fromstring (weather_env m t x) s = x"
  by (simp add: weather_env_def)

lemma weather_env_webhook [simp]: "SLACK_WEBHOOK_URL (weather_env m t x) = None"
  by (simp add: weather_env_def offline_env_def)

lemma get_metar_valid:
  "is_valid_icao icao \<Longrightarrow>
   get_metar E icao w =
     (case requests_get E (metar_url icao) of
        Inl (Raises e) \<Rightarrow>
          if is_RequestException e
          then (Inr (ascii ''METAR data not available (network error).''),
                w @ [HttpGet (metar_url icao),
                     Log ERROR (ascii ''Error fetching METAR: '') (Some e)])
          else (Inl e, w @ [HttpGet (metar_url icao)])
      | Inl (Unreadable st e) \<Rightarrow>
          if 400 \<le> st \<and> st < 600
          then (Inr (ascii ''METAR data not available (network error).''),
                w @ [HttpGet (metar_url icao),
                     Log ERROR (ascii ''Error fetching METAR: '') (Some (HTTPError st))])
          else if is_RequestException e
          then (Inr (ascii ''METAR data not available (network error).''),
                w @ [HttpGet (metar_url icao),
                     Log ERROR (ascii ''Error fetching METAR: '') (Some e)])
          else (Inl e, w @ [HttpGet (metar_url icao)])
      | Inr r \<Rightarrow>
          if 400 \<le> status_code r \<and> status_code r < 600
          then (Inr (ascii ''METAR data not available (network error).''),
                w @ [HttpGet (metar_url icao),
                     Log ERROR (ascii ''Error fetching METAR: '')
                       (Some (HTTPError (status_code r)))])
          else if list_all isspace (resp_text r)
          then (Inr (ascii ''METAR data not available (empty response).''),
                w @ [HttpGet (metar_url icao)])
          else (Inr (strip (resp_text r)), w @ [HttpGet (metar_url icao)]))"
  by (auto simp: get_metar_def get_metar_try_def raise_for_status_def strip_empty_iff
      split: sum.splits get_failure.splits)

lemma get_taf_valid:
  "is_valid_icao icao \<Longrightarrow>
   get_taf E icao w =
     (case requests_get E (taf_url icao) of
        Inl (Raises e) \<Rightarrow>
          if is_RequestException e \<or> is_ParseError e
          then (Inr (ascii ''TAF data not available.''),
                w @ [HttpGet (taf_url icao),
                     Log ERROR (ascii ''Error fetching/parsing TAF: '') (Some e)])
          else (Inl e, w @ [HttpGet (taf_url icao)])
      | Inl (Unreadable st e) \<Rightarrow>
          if 400 \<le> st \<and> st < 600
          then (Inr (ascii ''TAF data not available.''),
                w @ [HttpGet (taf_url icao),
                     Log ERROR (ascii ''Error fetching/parsing TAF: '') (Some (HTTPError st))])
          else if is_RequestException e \<or> is_ParseError e
          then (Inr (ascii ''TAF data not available.''),
                w @ [HttpGet (taf_url icao),
                     Log ERROR (ascii ''Error fetching/parsing TAF: '') (Some e)])
          else (Inl e, w @ [HttpGet (taf_url icao)])
      | Inr r \<Rightarrow>
          if 400 \<le> status_code r \<and> status_code r < 600
          then (Inr (ascii ''TAF data not available.''),
                w @ [HttpGet (taf_url icao),
                     Log ERROR (ascii ''Error fetching/parsing TAF: '')
                       (Some (HTTPError (status_code r)))])
          else if list_all isspace (resp_text r)
          then (Inr (ascii ''TAF data not available (empty response).''),
                w @ [HttpGet (taf_url icao)])
          else
            (case ET_fromstring E (resp_text r) of
               Inl m \<Rightarrow>
                 (Inr (ascii ''TAF data not available.''),
                  w @ [HttpGet (taf_url icao),
                       Log ERROR (ascii ''Error fetching/parsing TAF: '') (Some (ParseError m))])
             | Inr root \<Rightarrow>
                 if findall_TAF_text root = []
                 then (Inr (ascii ''TAF data not available.''), w @ [HttpGet (taf_url icao)])
                 else
                   (case strs_of (map elem_text (findall_TAF_text root)) of
                      None \<Rightarrow> (Inl TypeError, w @ [HttpGet (taf_url icao)])
                    | Some ss \<Rightarrow> (Inr (join_strs [10] ss), w @ [HttpGet (taf_url icao)]))))"
  by (auto simp: get_taf_def get_taf_try_def raise_for_status_def strip_empty_iff str_join_def
      split: sum.splits option.splits get_failure.splits)

text \<open>
  The only exceptions \<open>get_metar\<close> lets through are those its handler does not name:
  no \<open>RequestException\<close> reaches the caller.
\<close>

lemma get_metar_no_RequestException:
  "fst (get_metar E icao w) = Inl e \<Longrightarrow> \<not> is_RequestException e"
proof (cases "is_valid_icao icao")
  case True
  assume "fst (get_metar E icao w) = Inl e"
  with True show ?thesis
    by (auto simp: get_metar_valid split: sum.splits get_failure.splits if_splits)
next
  case False
  assume "fst (get_metar E icao w) = Inl e"
  with False show ?thesis by (simp add: get_metar_def)
qed

section \<open>Facts about the TAF path\<close>

text \<open>
  \<open>findall\<close> lists the matching nodes \<open>TAF\<close> element by \<open>TAF\<close> element. These are always
  the nodes of the document-order walk, each as often; they come in document order
  when no \<open>TAF\<close> element lies inside another.
\<close>

lemma walk_False_no_TAF: "iter (ascii ''TAF'') d = [] \<Longrightarrow> walk False d = []"
proof (induction d)
  case (Element g x cs)
  from Element.prems have g: "g \<noteq> ascii ''TAF''" and cs: "\<forall>c \<in> set cs. iter (ascii ''TAF'') c = []"
    by (auto split: if_splits)
  with Element.IH have "\<forall>c \<in> set cs. walk False c = []" by blast
  with g show ?case by simp
qed

lemma walk_True_no_TAF:
  "iter (ascii ''TAF'') d = [] \<Longrightarrow> walk True d = (if tag d = ascii ''text'' then [d] else [])"
proof (cases d)
  case (Element g x cs)
  assume a: "iter (ascii ''TAF'') d = []"
  with Element have g: "g \<noteq> ascii ''TAF''" and cs: "\<forall>c \<in> set cs. iter (ascii ''TAF'') c = []"
    by (auto split: if_splits)
  then have "\<forall>c \<in> set cs. walk False c = []" by (blast intro: walk_False_no_TAF)
  with g Element show ?thesis by simp
qed

lemma concat_map_filter_single: "concat (map (\<lambda>c. if P c then [c] else []) cs) = filter P cs"
  by (induction cs) auto

lemma concat_map_concat:
  "concat (map f (concat xss)) = concat (map (\<lambda>xs. concat (map f xs)) xss)"
  by (induction xss) auto

lemma findall_walk:
  "no_nested_TAF e \<Longrightarrow> concat (map children_text (iter (ascii ''TAF'') e)) = walk False e"
proof (induction e)
  case (Element g x cs)
  show ?case
  proof (cases "g = ascii ''TAF''")
    case True
    with Element.prems have cs: "\<forall>c \<in> set cs. iter (ascii ''TAF'') c = []"
      by (simp add: list_all_iff)
    then have i: "concat (map (iter (ascii ''TAF'')) cs) = []" by simp
    from cs have "map (walk True) cs = map (\<lambda>c. if tag c = ascii ''text'' then [c] else []) cs"
      by (simp add: walk_True_no_TAF)
    then have "concat (map (walk True) cs) = filter (\<lambda>c. tag c = ascii ''text'') cs"
      by (simp only: concat_map_filter_single)
    with True i show ?thesis by (simp add: children_text_def)
  next
    case False
    from Element.prems have "\<forall>c \<in> set cs. no_nested_TAF c" by (simp add: list_all_iff)
    with Element.IH have
      "map (\<lambda>c. concat (map children_text (iter (ascii ''TAF'') c))) cs = map (walk False) cs"
      by simp
    then have "concat (map (\<lambda>c. concat (map children_text (iter (ascii ''TAF'') c))) cs) =
               concat (map (walk False) cs)"
      by (rule arg_cong)
    then have "concat (map children_text (concat (map (iter (ascii ''TAF'')) cs))) =
               concat (map (walk False) cs)"
      by (simp only: concat_map_concat map_map comp_def)
    with False show ?thesis by simp
  qed
qed

lemma findall_document_order:
  assumes "list_all no_nested_TAF (children root)"
  shows "findall_TAF_text root = text_nodes_in_document_order root"
proof -
  from assms have
    "map (\<lambda>c. concat (map children_text (iter (ascii ''TAF'') c))) (children root) =
     map (walk False) (children root)"
    by (simp add: list_all_iff findall_walk)
  then have
    "concat (map (\<lambda>c. concat (map children_text (iter (ascii ''TAF'') c))) (children root)) =
     concat (map (walk False) (children root))"
    by (rule arg_cong)
  then show ?thesis
    by (simp only: findall_TAF_text_def descendants_TAF_def text_nodes_in_document_order_def
        concat_map_concat map_map comp_def)
qed


lemma strs_of_map_Some: "strs_of (map Some ss) = Some ss"
  by (induction ss) auto

lemma walk_True: "walk True c = (if tag c = ascii ''text'' then [c] else []) @ walk False c"
  by (cases c) simp

lemma mset_concat_map_cong:
  "(\<And>c. c \<in> set cs \<Longrightarrow> mset (f c) = mset (g c)) \<Longrightarrow>
     mset (concat (map f cs)) = mset (concat (map g cs))"
  by (induction cs) auto

lemma mset_concat_map_append:
  "mset (concat (map (\<lambda>c. f c @ g c) cs)) =
     mset (concat (map f cs)) + mset (concat (map g cs))"
  by (induction cs) auto

lemma concat_map_concat_map:
  "concat (map f (concat (map h cs))) = concat (map (\<lambda>c. concat (map f (h c))) cs)"
  by (induction cs) auto

lemma children_text_Element:
  "children_text (Element g x cs) = filter (\<lambda>c. tag c = ascii ''text'') cs"
  by (simp add: children_text_def)

lemma findall_walk_mset:
  "mset (concat (map children_text (iter (ascii ''TAF'') e))) = mset (walk False e)"
proof (induction e)
  case (Element g x cs)
  have sub: "mset (concat (map children_text (concat (map (iter (ascii ''TAF'')) cs)))) =
             mset (concat (map (walk False) cs))"
    unfolding concat_map_concat_map using Element.IH by (rule mset_concat_map_cong)
  show ?case
  proof (cases "g = ascii ''TAF''")
    case True
    have "map (walk True) cs =
          map (\<lambda>c. (if tag c = ascii ''text'' then [c] else []) @ walk False c) cs"
      by (simp add: walk_True)
    then have "mset (concat (map (walk True) cs)) =
          mset (filter (\<lambda>c. tag c = ascii ''text'') cs) + mset (concat (map (walk False) cs))"
      by (simp only: mset_concat_map_append concat_map_filter_single)
    with True sub show ?thesis by (simp add: children_text_Element)
  next
    case False
    with sub show ?thesis by simp
  qed
qed

lemma findall_mset_eq:
  "mset (findall_TAF_text root) = mset (text_nodes_in_document_order root)"
  unfolding findall_TAF_text_def descendants_TAF_def text_nodes_in_document_order_def
    concat_map_concat_map
  by (rule mset_concat_map_cong) (rule findall_walk_mset)

lemma findall_empty_iff:
  "findall_TAF_text root = [] \<longleftrightarrow> text_nodes_in_document_order root = []"
  using findall_mset_eq [of root] by (metis mset_zero_iff)

text \<open>The example documents.\<close>

lemma findall_examples:
  "findall_TAF_text empty_text_xml = [Element (ascii ''text'') None []]"
  "findall_TAF_text nested_xml =
     [Element (ascii ''text'') (Some (ascii ''b'')) [], Element (ascii ''text'') (Some (ascii ''a'')) []]"
  "findall_TAF_text no_taf_xml = []"
  by (simp_all add: findall_TAF_text_def descendants_TAF_def children_text_def
      empty_text_xml_def nested_xml_def no_taf_xml_def ascii_def)

lemma document_order_examples:
  "text_nodes_in_document_order nested_xml =
     [Element (ascii ''text'') (Some (ascii ''a'')) [], Element (ascii ''text'') (Some (ascii ''b'')) []]"
  "text_nodes_in_document_order no_taf_xml = []"
  "text_nodes_in_document_order two_tafs_xml =
     [Element (ascii ''text'') (Some (ascii ''TAF KJFK'')) [],
      Element (ascii ''text'') (Some (ascii ''TAF AMD KJFK'')) []]"
  by (simp_all add: text_nodes_in_document_order_def nested_xml_def no_taf_xml_def
      two_tafs_xml_def ascii_def)

lemma two_tafs_flat: "list_all no_nested_TAF (children two_tafs_xml)"
  by (simp add: two_tafs_xml_def ascii_def)

lemma bodies_not_blank:
  "\<not> list_all isspace (ascii ''<response><data>'')"
  "\<not> list_all isspace (ascii ''<response><data/></response>'')"
  "\<not> list_all isspace (ascii ''<response><data><TAF><text/></TAF></data></response>'')"
  "\<not> list_all isspace
       (ascii ''<response><TAF><TAF><text>a</text></TAF><text>b</text></TAF></response>'')"
  "\<not> list_all isspace
       (ascii ''<response><data><TAF><text>TAF KJFK</text></TAF><TAF><text>TAF AMD KJFK</text></TAF></data></response>'')"
  "\<not> list_all isspace (ascii ''KJFK 211951Z'')"
  "list_all isspace (ascii ''   '')"
  by (simp_all add: ascii_def isspace_def)

text \<open>The example answer of the METAR endpoint.\<close>

lemma strip_metar_body:
  "strip metar_body = ascii ''KJFK 211951Z 28012KT 10SM FEW250 24/12 A3001''"
  by (simp add: metar_body_def strip_def ascii_def isspace_def)

lemma metar_body_not_blank: "\<not> list_all isspace metar_body"
  by (simp add: metar_body_def ascii_def isspace_def)

lemma report_is_no_placeholder:
  "ascii ''KJFK 211951Z 28012KT 10SM FEW250 24/12 A3001'' \<noteq>
     ascii ''METAR data not available (network error).''"
  by (simp add: ascii_def)

lemma two_tafs_body_not_blank:
  "\<not> list_all isspace
       (ascii ''<response><data><TAF><text>TAF KJFK</text></TAF><TAF><text>TAF AMD KJFK</text></TAF></data></response>'')"
  by (rule bodies_not_blank)

section \<open>Properties of the validator\<close>

text \<open>
  C2: \<open>is_valid_icao(s)\<close> is true if and only if \<open>s\<close> consists of exactly four upper-case
  ASCII letters; in particular it rejects a string with a trailing newline. The code
  does not: it accepts \<open>"KJFK\n"\<close>, a string of five characters, because \<open>$\<close> also
  matches before a final newline.
\<close>

theorem is_valid_icao_accepts_trailing_newline:
  "is_valid_icao (ascii ''KJFK'' @ [10]) \<and> length (ascii ''KJFK'' @ [10]) = 5"
  by code_simp

text \<open>
  What the validator accepts, in full: four characters from \<open>A\<close> to \<open>Z\<close>, alone or
  followed by one newline.
\<close>

theorem is_valid_icao_accepts:
  "is_valid_icao s \<longleftrightarrow>
     (\<exists>a b c d. (s = [a, b, c, d] \<or> s = [a, b, c, d, 10]) \<and>
        65 \<le> a \<and> a \<le> 90 \<and> 65 \<le> b \<and> b \<le> 90 \<and> 65 \<le> c \<and> c \<le> 90 \<and> 65 \<le> d \<and> d \<le> 90)"
  by (rule is_valid_icao_iff)

section \<open>Properties of the fetchers on an invalid code\<close>

text \<open>
  C4: for every string the validator rejects, \<open>get_metar\<close> and \<open>get_taf\<close> each return the
  placeholder \<open>Invalid ICAO code.\<close> and leave the trace as it was: no request is made
  (nor anything logged), whatever the network would have answered.
\<close>

theorem invalid_icao_short_circuits:
  "\<not> is_valid_icao icao \<Longrightarrow>
     get_metar E icao w = (Inr (ascii ''Invalid ICAO code.''), w) \<and>
     get_taf E icao w = (Inr (ascii ''Invalid ICAO code.''), w)"
  by (simp add: get_metar_def get_taf_def)

theorem invalid_icao_short_circuits_witness:
  "\<not> is_valid_icao (ascii ''kjfk'') \<and>
   get_metar (weather_env (ok_response (ascii ''KJFK 211951Z'')) (ok_response (ascii ''<r/>''))
                (Inr two_tafs_xml)) (ascii ''kjfk'') [] =
     (Inr (ascii ''Invalid ICAO code.''), []) \<and>
   get_taf (weather_env (ok_response (ascii ''KJFK 211951Z'')) (ok_response (ascii ''<r/>''))
              (Inr two_tafs_xml)) (ascii ''kjfk'') [] =
     (Inr (ascii ''Invalid ICAO code.''), [])"
  using invalid_icao_short_circuits [OF kjfk_invalid] kjfk_invalid by simp

section \<open>Properties of the notifier\<close>

text \<open>
  C7: when the webhook variable is unset, \<open>send_to_slack\<close> returns normally and adds
  exactly one event to the trace, an error log record: no HTTP POST is made.
\<close>

theorem send_to_slack_unset_webhook:
  "SLACK_WEBHOOK_URL E = None \<Longrightarrow>
     send_to_slack E message icao w =
       (Inr (),
        w @ [Log ERROR (ascii ''Slack Webhook URL not found in environment variables.'') None])"
  by (simp add: send_to_slack_def slack_not_configured_def)

lemma offline_no_webhook: "SLACK_WEBHOOK_URL offline_env = None"
  by (simp add: offline_env_def)

theorem send_to_slack_unset_webhook_witness:
  "SLACK_WEBHOOK_URL offline_env = None \<and>
   send_to_slack offline_env (brief_message KJFK KJFK KJFK) KJFK [] =
     (Inr (),
      [Log ERROR (ascii ''Slack Webhook URL not found in environment variables.'') None])"
  using send_to_slack_unset_webhook
    [OF offline_no_webhook, of "brief_message KJFK KJFK KJFK" KJFK "[]"]
    offline_no_webhook
  by simp

section \<open>Properties of the decoder\<close>

text \<open>
  C10: the decoder detects a placeholder by containment. Every input in which
  \<open>METAR data not available.\<close> or \<open>Invalid ICAO code.\<close> occurs somewhere is returned
  unchanged; the METAR library has no part in the result and nothing is logged.
\<close>

theorem decode_metar_substring_passthrough:
  "(\<exists>p q. metar = p @ ascii ''METAR data not available.'' @ q) \<or>
   (\<exists>p q. metar = p @ ascii ''Invalid ICAO code.'' @ q) \<Longrightarrow>
     decode_metar E metar w = (Inr metar, w)"
  by (auto simp: decode_metar_def contains_sublist sublist_def)

theorem decode_metar_substring_passthrough_witness:
  "decode_metar offline_env
     (ascii ''KJFK 211951Z RMK '' @ ascii ''METAR data not available.'' @ ascii '' A3001'') [] =
   (Inr (ascii ''KJFK 211951Z RMK '' @ ascii ''METAR data not available.'' @ ascii '' A3001''), [])"
  using decode_metar_substring_passthrough
    [of "ascii ''KJFK 211951Z RMK '' @ ascii ''METAR data not available.'' @ ascii '' A3001''"
        offline_env "[]"]
  by blast

text \<open>
  Neither of the two texts the decoder looks for occurs in the placeholders the METAR
  fetcher returns for an empty response and for a network error.
\<close>

lemma fetch_placeholders_not_detected:
  "\<not> contains (ascii ''METAR data not available (empty response).'')
       (ascii ''METAR data not available.'')"
  "\<not> contains (ascii ''METAR data not available (empty response).'')
       (ascii ''Invalid ICAO code.'')"
  "\<not> contains (ascii ''METAR data not available (network error).'')
       (ascii ''METAR data not available.'')"
  "\<not> contains (ascii ''METAR data not available (network error).'')
       (ascii ''Invalid ICAO code.'')"
  by code_simp+

text \<open>
  C1: the decoder returns each placeholder of the METAR fetcher unchanged. The code
  does so for \<open>Invalid ICAO code.\<close> only. The placeholders for an empty response and for
  a network error are handed to the METAR library like a report: the result is what
  the library makes of them, and \<open>Error decoding METAR.\<close> with an error logged when it
  raises.
\<close>

theorem decode_metar_parses_fetch_placeholders:
  "decode_metar E (ascii ''METAR data not available (empty response).'') w =
     (case decode_metar_try E (ascii ''METAR data not available (empty response).'') of
        Inr d \<Rightarrow> (Inr d, w)
      | Inl e \<Rightarrow> (Inr (ascii ''Error decoding METAR.''),
                 w @ [Log ERROR (ascii ''Error decoding METAR: '') (Some e)])) \<and>
   decode_metar E (ascii ''METAR data not available (network error).'') w =
     (case decode_metar_try E (ascii ''METAR data not available (network error).'') of
        Inr d \<Rightarrow> (Inr d, w)
      | Inl e \<Rightarrow> (Inr (ascii ''Error decoding METAR.''),
                 w @ [Log ERROR (ascii ''Error decoding METAR: '') (Some e)]))"
  by (simp only: decode_metar_def fetch_placeholders_not_detected simp_thms if_False)

text \<open>With a METAR library that rejects the text, as it rejects any text that is no report:\<close>

lemma decode_metar_empty_response_example:
  "decode_metar offline_env (ascii ''METAR data not available (empty response).'') [] =
     (Inr (ascii ''Error decoding METAR.''),
      [Log ERROR (ascii ''Error decoding METAR: '')
         (Some (MetarException (ascii ''Unparsed groups'')))])"
  by code_simp

section \<open>Properties of the TAF fetcher\<close>

text \<open>
  C3 (as the code has it): on a valid code and an answer whose status is not 4xx or 5xx,
  a body of white space only gives \<open>TAF data not available (empty response).\<close>; a body
  the XML parser rejects gives \<open>TAF data not available.\<close> and an error log record; a
  document without matching nodes gives \<open>TAF data not available.\<close> as well. So the
  last two placeholders are one string, and only the first differs from them.
\<close>

theorem get_taf_failure_placeholders:
  assumes "is_valid_icao icao"
    and "requests_get E (taf_url icao) = Inr r"
    and "\<not> (400 \<le> status_code r \<and> status_code r < 600)"
  shows
    "(list_all isspace (resp_text r) \<longrightarrow>
        get_taf E icao w =
          (Inr (ascii ''TAF data not available (empty response).''),
           w @ [HttpGet (taf_url icao)])) \<and>
     (\<forall>m. \<not> list_all isspace (resp_text r) \<and> ET_fromstring E (resp_text r) = Inl m \<longrightarrow>
        get_taf E icao w =
          (Inr (ascii ''TAF data not available.''),
           w @ [HttpGet (taf_url icao),
                Log ERROR (ascii ''Error fetching/parsing TAF: '') (Some (ParseError m))])) \<and>
     (\<forall>root. \<not> list_all isspace (resp_text r) \<and> ET_fromstring E (resp_text r) = Inr root \<and>
        text_nodes_in_document_order root = [] \<longrightarrow>
        get_taf E icao w =
          (Inr (ascii ''TAF data not available.''), w @ [HttpGet (taf_url icao)])) \<and>
     ascii ''TAF data not available (empty response).'' \<noteq> ascii ''TAF data not available.''"
proof -
  have "ascii ''TAF data not available (empty response).'' \<noteq> ascii ''TAF data not available.''"
    by (simp add: ascii_def)
  then show ?thesis
    using assms by (auto simp: get_taf_valid findall_empty_iff)
qed

theorem get_taf_failure_placeholders_witness:
  "is_valid_icao KJFK \<and>
   get_taf (weather_env metar_ok (ok_response (ascii ''   '')) (Inl [])) KJFK [] =
     (Inr (ascii ''TAF data not available (empty response).''), [HttpGet (taf_url KJFK)]) \<and>
   get_taf (weather_env metar_ok (ok_response (ascii ''<response><data>''))
              (Inl (ascii ''no element found''))) KJFK [] =
     (Inr (ascii ''TAF data not available.''),
      [HttpGet (taf_url KJFK),
       Log ERROR (ascii ''Error fetching/parsing TAF: '')
         (Some (ParseError (ascii ''no element found'')))]) \<and>
   get_taf (weather_env metar_ok (ok_response (ascii ''<response><data/></response>''))
              (Inr no_taf_xml)) KJFK [] =
     (Inr (ascii ''TAF data not available.''), [HttpGet (taf_url KJFK)])"
  using
    get_taf_failure_placeholders [OF KJFK_valid,
      of "weather_env metar_ok (ok_response (ascii ''   '')) (Inl [])"
         "\<lparr>status_code = 200, resp_text = ascii ''   ''\<rparr>" "[]"]
    get_taf_failure_placeholders [OF KJFK_valid,
      of "weather_env metar_ok (ok_response (ascii ''<response><data>''))
            (Inl (ascii ''no element found''))"
         "\<lparr>status_code = 200, resp_text = ascii ''<response><data>''\<rparr>" "[]"]
    get_taf_failure_placeholders [OF KJFK_valid,
      of "weather_env metar_ok (ok_response (ascii ''<response><data/></response>''))
            (Inr no_taf_xml)"
         "\<lparr>status_code = 200, resp_text = ascii ''<response><data/></response>''\<rparr>" "[]"]
  by (simp add: KJFK_valid ok_response_def bodies_not_blank document_order_examples)

text \<open>
  The claim as stated asks for three pairwise distinct placeholders; a truncated
  document and a document without forecasts give the same one.
\<close>

theorem get_taf_parse_failure_and_no_match_same_placeholder:
  "fst (get_taf (weather_env metar_ok (ok_response (ascii ''<response><data>''))
                   (Inl (ascii ''no element found''))) KJFK []) =
     Inr (ascii ''TAF data not available.'') \<and>
   fst (get_taf (weather_env metar_ok (ok_response (ascii ''<response><data/></response>''))
                   (Inr no_taf_xml)) KJFK []) =
     Inr (ascii ''TAF data not available.'')"
  by (simp add: get_taf_valid KJFK_valid ok_response_def bodies_not_blank findall_examples)

text \<open>
  C6 (as the code has it): on a valid code, an answer whose status is not 4xx or 5xx and
  whose body is not blank and parses, if the document has at least one matching node,
  every matching node has text, and no \<open>TAF\<close> element lies inside another, then
  \<open>get_taf\<close> returns the texts of the matching nodes in document order, joined with
  newlines, after one GET and nothing else.
\<close>

theorem get_taf_joins_texts:
  assumes "is_valid_icao icao"
    and "requests_get E (taf_url icao) = Inr r"
    and "\<not> (400 \<le> status_code r \<and> status_code r < 600)"
    and "\<not> list_all isspace (resp_text r)"
    and "ET_fromstring E (resp_text r) = Inr root"
    and "text_nodes_in_document_order root \<noteq> []"
    and "map elem_text (text_nodes_in_document_order root) = map Some ss"
    and "list_all no_nested_TAF (children root)"
  shows "get_taf E icao w = (Inr (join_strs [10] ss), w @ [HttpGet (taf_url icao)])"
proof -
  from assms(8) have order: "findall_TAF_text root = text_nodes_in_document_order root"
    by (rule findall_document_order)
  with assms(7) have "strs_of (map elem_text (findall_TAF_text root)) = Some ss"
    by (simp add: strs_of_map_Some)
  with order assms(1-6) show ?thesis
    by (simp add: get_taf_valid)
qed

theorem get_taf_joins_texts_witness:
  "is_valid_icao KJFK \<and>
   text_nodes_in_document_order two_tafs_xml \<noteq> [] \<and>
   map elem_text (text_nodes_in_document_order two_tafs_xml) =
     map Some [ascii ''TAF KJFK'', ascii ''TAF AMD KJFK''] \<and>
   list_all no_nested_TAF (children two_tafs_xml) \<and>
   get_taf
     (weather_env metar_ok
        (ok_response
           (ascii ''<response><data><TAF><text>TAF KJFK</text></TAF><TAF><text>TAF AMD KJFK</text></TAF></data></response>''))
        (Inr two_tafs_xml)) KJFK [] =
     (Inr (ascii ''TAF KJFK'' @ [10] @ ascii ''TAF AMD KJFK''), [HttpGet (taf_url KJFK)])"
proof -
  let ?r = "\<lparr>status_code = 200,
             resp_text = ascii ''<response><data><TAF><text>TAF KJFK</text></TAF><TAF><text>TAF AMD KJFK</text></TAF></data></response>''\<rparr>"
  let ?E = "weather_env metar_ok (Inr ?r) (Inr two_tafs_xml)"
  have get: "requests_get ?E (taf_url KJFK) = Inr ?r" by simp
  have st: "\<not> (400 \<le> status_code ?r \<and> status_code ?r < 600)" by simp
  have nb: "\<not> list_all isspace (resp_text ?r)" using two_tafs_body_not_blank by simp
  have parse: "ET_fromstring ?E (resp_text ?r) = Inr two_tafs_xml" by simp
  have some: "text_nodes_in_document_order two_tafs_xml \<noteq> []"
    by (simp add: document_order_examples)
  have texts: "map elem_text (text_nodes_in_document_order two_tafs_xml) =
      map Some [ascii ''TAF KJFK'', ascii ''TAF AMD KJFK'']"
    by (simp add: document_order_examples)
  from get_taf_joins_texts [OF KJFK_valid get st nb parse some texts two_tafs_flat, of "[]"]
  show ?thesis
    using some texts two_tafs_flat KJFK_valid by (simp add: ok_response_def)
qed

text \<open>
  The claim as stated covers every well-formed document. It fails on a matching node
  without text, \<open><text/>\<close>, where \<open>str.join\<close> raises \<open>TypeError\<close> and the
  exception leaves \<open>get_taf\<close>; and on a \<open>TAF\<close> element inside another, where the
  outer element's nodes come first although the inner one's stand before them in the
  document.
\<close>

theorem get_taf_empty_text_raises_and_nested_order:
  "fst (get_taf
          (weather_env metar_ok
             (ok_response (ascii ''<response><data><TAF><text/></TAF></data></response>''))
             (Inr empty_text_xml)) KJFK []) = Inl TypeError \<and>
   fst (get_taf
          (weather_env metar_ok
             (ok_response
                (ascii ''<response><TAF><TAF><text>a</text></TAF><text>b</text></TAF></response>''))
             (Inr nested_xml)) KJFK []) = Inr (ascii ''b'' @ [10] @ ascii ''a'') \<and>
   map elem_text (text_nodes_in_document_order nested_xml) = [Some (ascii ''a''), Some (ascii ''b'')]"
  by (simp add: get_taf_valid KJFK_valid ok_response_def bodies_not_blank findall_examples
      document_order_examples)

text \<open>
  Whatever the nesting, \<open>findall\<close> returns the matching nodes of the document and no
  others, each as often as the document-order walk lists it.
\<close>

theorem findall_mset:
  "mset (findall_TAF_text root) = mset (text_nodes_in_document_order root)"
  by (rule findall_mset_eq)

section \<open>Properties of the METAR fetcher\<close>

text \<open>
  C5 (as the code has it): on a valid code \<open>get_metar\<close> makes one GET and never lets a
  \<open>RequestException\<close> reach the caller. When the request raises a \<open>RequestException\<close>
  (a timeout, a DNS or connection error), and when the answer has a status from 400 to
  599, it returns the network-error placeholder and logs one error. For an answer with
  any other status it returns the empty-response placeholder when the body is white
  space only, and otherwise the body without the white space around it: the part of the
  body between a leading and a trailing run of white space that neither starts nor ends
  with white space. An exception of another class, raised by the request or by reading
  the text of an answer whose status is not 4xx or 5xx, is not caught: it leaves
  \<open>get_metar\<close>, and nothing is logged.
\<close>

theorem get_metar_outcomes:
  assumes "is_valid_icao icao"
  shows
    "(\<forall>e. requests_get E (metar_url icao) = Inl (Raises e) \<and> is_RequestException e \<longrightarrow>
        get_metar E icao w =
          (Inr (ascii ''METAR data not available (network error).''),
           w @ [HttpGet (metar_url icao),
                Log ERROR (ascii ''Error fetching METAR: '') (Some e)])) \<and>
     (\<forall>r. requests_get E (metar_url icao) = Inr r \<and>
          400 \<le> status_code r \<and> status_code r < 600 \<longrightarrow>
        get_metar E icao w =
          (Inr (ascii ''METAR data not available (network error).''),
           w @ [HttpGet (metar_url icao),
                Log ERROR (ascii ''Error fetching METAR: '') (Some (HTTPError (status_code r)))])) \<and>
     (\<forall>st e. requests_get E (metar_url icao) = Inl (Unreadable st e) \<and>
          400 \<le> st \<and> st < 600 \<longrightarrow>
        get_metar E icao w =
          (Inr (ascii ''METAR data not available (network error).''),
           w @ [HttpGet (metar_url icao),
                Log ERROR (ascii ''Error fetching METAR: '') (Some (HTTPError st))])) \<and>
     (\<forall>r. requests_get E (metar_url icao) = Inr r \<and>
          \<not> (400 \<le> status_code r \<and> status_code r < 600) \<and> list_all isspace (resp_text r) \<longrightarrow>
        get_metar E icao w =
          (Inr (ascii ''METAR data not available (empty response).''),
           w @ [HttpGet (metar_url icao)])) \<and>
     (\<forall>r. requests_get E (metar_url icao) = Inr r \<and>
          \<not> (400 \<le> status_code r \<and> status_code r < 600) \<and> \<not> list_all isspace (resp_text r) \<longrightarrow>
        (\<exists>p t q. resp_text r = p @ t @ q \<and> list_all isspace p \<and> list_all isspace q \<and>
           t \<noteq> [] \<and> \<not> isspace (hd t) \<and> \<not> isspace (last t) \<and>
           get_metar E icao w = (Inr t, w @ [HttpGet (metar_url icao)]))) \<and>
     (\<forall>e. requests_get E (metar_url icao) = Inl (Raises e) \<and> \<not> is_RequestException e \<longrightarrow>
        get_metar E icao w = (Inl e, w @ [HttpGet (metar_url icao)])) \<and>
     (\<forall>st e. requests_get E (metar_url icao) = Inl (Unreadable st e) \<and>
          \<not> (400 \<le> st \<and> st < 600) \<and> \<not> is_RequestException e \<longrightarrow>
        get_metar E icao w = (Inl e, w @ [HttpGet (metar_url icao)])) \<and>
     (\<forall>e. fst (get_metar E icao w) = Inl e \<longrightarrow> \<not> is_RequestException e)"
proof (intro conjI allI impI)
  fix e
  assume "requests_get E (metar_url icao) = Inl (Raises e) \<and> is_RequestException e"
  with assms show "get_metar E icao w =
      (Inr (ascii ''METAR data not available (network error).''),
       w @ [HttpGet (metar_url icao),
            Log ERROR (ascii ''Error fetching METAR: '') (Some e)])"
    by (simp add: get_metar_valid)
next
  fix r
  assume "requests_get E (metar_url icao) = Inr r \<and>
          400 \<le> status_code r \<and> status_code r < 600"
  with assms show "get_metar E icao w =
      (Inr (ascii ''METAR data not available (network error).''),
       w @ [HttpGet (metar_url icao),
            Log ERROR (ascii ''Error fetching METAR: '') (Some (HTTPError (status_code r)))])"
    by (simp add: get_metar_valid)
next
  fix st e
  assume "requests_get E (metar_url icao) = Inl (Unreadable st e) \<and> 400 \<le> st \<and> st < 600"
  with assms show "get_metar E icao w =
      (Inr (ascii ''METAR data not available (network error).''),
       w @ [HttpGet (metar_url icao),
            Log ERROR (ascii ''Error fetching METAR: '') (Some (HTTPError st))])"
    by (simp add: get_metar_valid)
next
  fix r
  assume "requests_get E (metar_url icao) = Inr r \<and>
          \<not> (400 \<le> status_code r \<and> status_code r < 600) \<and> list_all isspace (resp_text r)"
  with assms show "get_metar E icao w =
      (Inr (ascii ''METAR data not available (empty response).''),
       w @ [HttpGet (metar_url icao)])"
    by (auto simp: get_metar_valid)
next
  fix r
  assume a: "requests_get E (metar_url icao) = Inr r \<and>
          \<not> (400 \<le> status_code r \<and> status_code r < 600) \<and> \<not> list_all isspace (resp_text r)"
  with assms have res:
    "get_metar E icao w = (Inr (strip (resp_text r)), w @ [HttpGet (metar_url icao)])"
    by (auto simp: get_metar_valid)
  from a have ne: "strip (resp_text r) \<noteq> []" by (simp add: strip_empty_iff)
  from strip_trimmed [of "resp_text r"] ne res
  show "\<exists>p t q. resp_text r = p @ t @ q \<and> list_all isspace p \<and> list_all isspace q \<and>
           t \<noteq> [] \<and> \<not> isspace (hd t) \<and> \<not> isspace (last t) \<and>
           get_metar E icao w = (Inr t, w @ [HttpGet (metar_url icao)])"
    by blast
next
  fix e
  assume "requests_get E (metar_url icao) = Inl (Raises e) \<and> \<not> is_RequestException e"
  with assms show "get_metar E icao w = (Inl e, w @ [HttpGet (metar_url icao)])"
    by (simp add: get_metar_valid)
next
  fix st e
  assume "requests_get E (metar_url icao) = Inl (Unreadable st e) \<and>
          \<not> (400 \<le> st \<and> st < 600) \<and> \<not> is_RequestException e"
  with assms show "get_metar E icao w = (Inl e, w @ [HttpGet (metar_url icao)])"
    by (auto simp: get_metar_valid)
next
  fix e
  assume "fst (get_metar E icao w) = Inl e"
  then show "\<not> is_RequestException e" by (rule get_metar_no_RequestException)
qed

theorem get_metar_outcomes_witness:
  "is_valid_icao KJFK \<and>
   get_metar (weather_env timed_out timed_out (Inl [])) KJFK [] =
     (Inr (ascii ''METAR data not available (network error).''),
      [HttpGet (metar_url KJFK),
       Log ERROR (ascii ''Error fetching METAR: '')
         (Some (RequestException (ascii ''timed out'')))]) \<and>
   get_metar (weather_env (Inr \<lparr>status_code = 503, resp_text = metar_body\<rparr>) timed_out (Inl []))
     KJFK [] =
     (Inr (ascii ''METAR data not available (network error).''),
      [HttpGet (metar_url KJFK),
       Log ERROR (ascii ''Error fetching METAR: '') (Some (HTTPError 503))]) \<and>
   get_metar (weather_env (Inl (Unreadable 404 (UnicodeError (ascii ''idna'')))) timed_out (Inl []))
     KJFK [] =
     (Inr (ascii ''METAR data not available (network error).''),
      [HttpGet (metar_url KJFK),
       Log ERROR (ascii ''Error fetching METAR: '') (Some (HTTPError 404))]) \<and>
   get_metar (weather_env (ok_response (ascii ''   '')) timed_out (Inl [])) KJFK [] =
     (Inr (ascii ''METAR data not available (empty response).''), [HttpGet (metar_url KJFK)]) \<and>
   (\<exists>p t q. metar_body = p @ t @ q \<and> list_all isspace p \<and> list_all isspace q \<and>
      t \<noteq> [] \<and> \<not> isspace (hd t) \<and> \<not> isspace (last t) \<and>
      get_metar (weather_env metar_ok timed_out (Inl [])) KJFK [] =
        (Inr t, [HttpGet (metar_url KJFK)])) \<and>
   get_metar (weather_env no_ca_bundle timed_out (Inl [])) KJFK [] =
     (Inl (OSError (ascii ''Could not find a suitable TLS CA certificate bundle'')),
      [HttpGet (metar_url KJFK)]) \<and>
   get_metar (weather_env (Inl (Unreadable 200 (UnicodeError (ascii ''idna'')))) timed_out (Inl []))
     KJFK [] =
     (Inl (UnicodeError (ascii ''idna'')), [HttpGet (metar_url KJFK)])"
  using
    get_metar_outcomes [OF KJFK_valid, of "weather_env timed_out timed_out (Inl [])" "[]"]
    get_metar_outcomes [OF KJFK_valid,
      of "weather_env (Inr \<lparr>status_code = 503, resp_text = metar_body\<rparr>) timed_out (Inl [])"
         "[]"]
    get_metar_outcomes [OF KJFK_valid,
      of "weather_env (Inl (Unreadable 404 (UnicodeError (ascii ''idna'')))) timed_out (Inl [])"
         "[]"]
    get_metar_outcomes [OF KJFK_valid,
      of "weather_env (ok_response (ascii ''   '')) timed_out (Inl [])" "[]"]
    get_metar_outcomes [OF KJFK_valid, of "weather_env metar_ok timed_out (Inl [])" "[]"]
    get_metar_outcomes [OF KJFK_valid, of "weather_env no_ca_bundle timed_out (Inl [])" "[]"]
    get_metar_outcomes [OF KJFK_valid,
      of "weather_env (Inl (Unreadable 200 (UnicodeError (ascii ''idna'')))) timed_out (Inl [])"
         "[]"]
  by (simp add: KJFK_valid ok_response_def metar_ok_def timed_out_def no_ca_bundle_def
      bodies_not_blank metar_body_not_blank)

text \<open>
  The claim as stated counts every status outside 2xx as a network failure, and says
  that nothing is ever raised. The code follows \<open>raise_for_status\<close>, which raises for 4xx
  and 5xx only: an answer with status 300 and a body is returned as the report. And its
  handler names \<open>RequestException\<close> only: the \<open>OSError\<close> of a request made without a
  certificate bundle leaves \<open>get_metar\<close>.
\<close>

theorem get_metar_status_300_returns_body:
  "fst (get_metar
          (weather_env (Inr \<lparr>status_code = 300, resp_text = metar_body\<rparr>) timed_out (Inl []))
          KJFK []) =
     Inr (ascii ''KJFK 211951Z 28012KT 10SM FEW250 24/12 A3001'') \<and>
   ascii ''KJFK 211951Z 28012KT 10SM FEW250 24/12 A3001'' \<noteq>
     ascii ''METAR data not available (network error).'' \<and>
   fst (get_metar (weather_env no_ca_bundle timed_out (Inl [])) KJFK []) =
     Inl (OSError (ascii ''Could not find a suitable TLS CA certificate bundle''))"
  using report_is_no_placeholder
  by (simp add: get_metar_valid KJFK_valid metar_body_not_blank strip_metar_body
      no_ca_bundle_def)

section \<open>Properties of the weather brief\<close>

text \<open>
  C8: for every code \<open>get_weather_brief\<close> runs all stages and no exception reaches the
  top level, so the process exits with status 0. The code does not: when the TAF
  document has a matching node without text, the \<open>TypeError\<close> of \<open>str.join\<close> is not among
  the exceptions \<open>get_taf\<close> catches, leaves \<open>get_weather_brief\<close> before anything is
  decoded, printed or sent, and the process exits with status 1.
\<close>

theorem get_weather_brief_raises_on_empty_taf_text:
  "fst (get_weather_brief
          (weather_env metar_ok
             (ok_response (ascii ''<response><data><TAF><text/></TAF></data></response>''))
             (Inr empty_text_xml)) KJFK []) = Inl TypeError \<and>
   exit_status
     (weather_env metar_ok
        (ok_response (ascii ''<response><data><TAF><text/></TAF></data></response>''))
        (Inr empty_text_xml)) KJFK = 1"
  by (simp add: exit_status_def get_weather_brief_def get_metar_valid get_taf_valid KJFK_valid
      ok_response_def metar_ok_def metar_body_not_blank bodies_not_blank findall_examples)

end
